theory Spec2Isabelle
  imports Main "HOL-Library.Sublist"
begin

section \<open>The streaming supervisor of cameraServer.py\<close>

text \<open>
  The program supervises two child processes (libcamera-vid piped into ffmpeg), gates
  their start on internet reachability, polls their health and restarts them. Everything
  it does to the outside world is an external call; the model records each call as an
  \<open>event\<close> appended to a trace and takes each answer of the outside world as an
  explicit argument. Exceptions are values; process output is text that has already been
  decoded (the characters below 128 are ASCII).
\<close>

subsection \<open>Text: \<open>str.strip\<close>, \<open>str.lower\<close> and the \<open>in\<close> operator\<close>

definition is_space :: "char \<Rightarrow> bool" where
  \<comment> \<open>\<open>str.isspace\<close> on ASCII: TAB, LF, VT, FF, CR, FS, GS, RS, US and the blank\<close>
  "is_space c = (let n = (of_char c :: nat) in (9 \<le> n \<and> n \<le> 13) \<or> (28 \<le> n \<and> n \<le> 32))"

definition strip :: "string \<Rightarrow> string" where
  "strip xs = rev (dropWhile is_space (rev (dropWhile is_space xs)))"

definition lower_char :: "char \<Rightarrow> char" where
  "lower_char c = (let n = (of_char c :: nat) in if 65 \<le> n \<and> n \<le> 90 then char_of (n + 32) else c)"

definition lower :: "string \<Rightarrow> string" where
  "lower xs = map lower_char xs"

fun starts_with :: "string \<Rightarrow> string \<Rightarrow> bool" where
  "starts_with [] ys = True"
| "starts_with (x # xs) [] = False"
| "starts_with (x # xs) (y # ys) = (x = y \<and> starts_with xs ys)"

fun contains :: "string \<Rightarrow> string \<Rightarrow> bool" where
  \<comment> \<open>\<open>contains t xs\<close> is Python's \<open>t in xs\<close> on strings\<close>
  "contains t [] = (t = [])"
| "contains t (y # ys) = (starts_with t (y # ys) \<or> contains t ys)"

definition error_terms :: "string list" where
  "error_terms = [''error'', ''failed'', ''cannot'', ''unable'', ''timeout'', ''terminated'']"

fun digits :: "nat \<Rightarrow> string" where
  "digits n = (if n < 10 then [char_of (48 + n)] else digits (n div 10) @ [char_of (48 + n mod 10)])"

definition str :: "int \<Rightarrow> string" where
  \<comment> \<open>\<open>str\<close> of a Python integer\<close>
  "str i = (if i < 0 then CHR ''-'' # digits (nat (- i)) else digits (nat i))"

subsection \<open>External calls, answers of the outside world, program state\<close>

datatype event =
    Log string                \<comment> \<open>\<open>log_message\<close>: one printed line, the timestamp left out\<close>
  | Print string              \<comment> \<open>a bare \<open>print\<close>\<close>
  | Sleep nat                 \<comment> \<open>\<open>time.sleep\<close>, in seconds\<close>
  | Connect                   \<comment> \<open>\<open>socket.create_connection(("8.8.8.8", 53), timeout=3)\<close>\<close>
  | HttpPost string string    \<comment> \<open>\<open>requests.post\<close>: url and the cameraName field\<close>
  | Run "string list"         \<comment> \<open>\<open>subprocess.run\<close> of a command, timeout 5\<close>
  | Popen "string list"       \<comment> \<open>\<open>subprocess.Popen\<close> of a command\<close>
  | Poll nat                  \<comment> \<open>\<open>process.poll()\<close> of the process with this pid\<close>
  | ReadAll nat               \<comment> \<open>\<open>process.stderr.read()\<close>\<close>
  | Select nat                \<comment> \<open>\<open>select.select([process.stderr], [], [], 0)\<close>\<close>
  | Readline nat              \<comment> \<open>\<open>process.stderr.readline()\<close>\<close>
  | CloseStdout nat           \<comment> \<open>\<open>process.stdout.close()\<close>\<close>
  | GpioOutput nat bool       \<comment> \<open>\<open>GPIO.output(channel, level)\<close>\<close>
  | GpioCleanup               \<comment> \<open>\<open>GPIO.cleanup()\<close>\<close>

datatype exn =
    TimeoutExpired            \<comment> \<open>\<open>subprocess.TimeoutExpired\<close>\<close>
  | OtherException string     \<comment> \<open>any other subclass of \<open>Exception\<close>, with its text\<close>

datatype pin = Input | Out bool

datatype conn = Connected | OSError

datatype post_outcome = Response string | RequestException string

datatype run_outcome = Completed int | RunRaises exn

datatype popen_outcome = Started nat | PopenRaises string

type_synonym handle = "nat \<times> nat"

datatype loc =
    START
  | AWAITING_NETWORK
  | LAUNCHING nat
  | STREAMING handle
  | EXITED

record state =
  status :: nat               \<comment> \<open>the global \<open>status\<close>: 0 not yet notified, 1 notified\<close>
  pin18 :: pin
  pin23 :: pin
  hostname :: string
  trace :: "event list"
  pc :: loc                   \<comment> \<open>where \<open>main\<close> stands\<close>
  count :: nat                \<comment> \<open>the local \<open>count\<close> of \<open>main\<close>\<close>

datatype 'a outcome = Return 'a state | Raise exn state

record kill_obs =
  pkill_libcamera :: run_outcome
  pkill_ffmpeg :: run_outcome

record launch_obs =
  launch_kill :: kill_obs
  popen_libcamera :: popen_outcome
  settle_poll :: "int option"      \<comment> \<open>\<open>libcamera_process.poll()\<close> after the one second\<close>
  settle_stderr :: string          \<comment> \<open>\<open>libcamera_process.stderr.read().decode()\<close>\<close>
  popen_ffmpeg :: popen_outcome

record obs =
  interrupt :: bool                \<comment> \<open>a KeyboardInterrupt arrives before the step\<close>
  net :: conn
  post :: post_outcome
  kill :: kill_obs                 \<comment> \<open>for the teardown of the step itself\<close>
  final_kill :: kill_obs           \<comment> \<open>for the teardown in the \<open>finally\<close> of \<open>main\<close>\<close>
  launch :: launch_obs
  uptime :: nat                    \<comment> \<open>\<open>int(time.time() - stream_start_time)\<close>\<close>
  libcamera_status :: "int option"
  ffmpeg_status :: "int option"
  libcamera_final :: string        \<comment> \<open>\<open>libcamera_process.stderr.read().decode()\<close>\<close>
  ffmpeg_final :: string
  libcamera_line :: "string option"  \<comment> \<open>None: select finds nothing to read\<close>
  ffmpeg_line :: "string option"

definition emit :: "event \<Rightarrow> state \<Rightarrow> state" where
  "emit e s = s\<lparr>trace := trace s @ [e]\<rparr>"

definition log_message :: "string \<Rightarrow> state \<Rightarrow> state" where
  "log_message message s = emit (Log message) s"

definition sleep :: "nat \<Rightarrow> state \<Rightarrow> state" where
  "sleep n s = emit (Sleep n) s"

definition GPIO_output :: "nat \<Rightarrow> bool \<Rightarrow> state \<Rightarrow> state" where
  "GPIO_output channel v s =
     emit (GpioOutput channel v)
       (if channel = 18 then s\<lparr>pin18 := Out v\<rparr>
        else if channel = 23 then s\<lparr>pin23 := Out v\<rparr> else s)"

definition GPIO_cleanup :: "state \<Rightarrow> state" where
  "GPIO_cleanup s = emit GpioCleanup (s\<lparr>pin18 := Input, pin23 := Input\<rparr>)"


definition exn_text :: "exn \<Rightarrow> string" where
  "exn_text e = (case e of TimeoutExpired \<Rightarrow> ''Command timed out after 5 seconds''
                 | OtherException m \<Rightarrow> m)"

subsection \<open>Configuration\<close>

definition FRAMERATE :: string where "FRAMERATE = ''20''"
definition RESOLUTION :: string where "RESOLUTION = ''640x480''"
definition VIDEO_BITRATE :: string where "VIDEO_BITRATE = ''600k''"

definition RTMP_URL :: "string \<Rightarrow> string" where
  \<comment> \<open>the argument is the host name read from /etc/hostname\<close>
  "RTMP_URL h = ''rtmp://rtmp.aionasset.in/live/test'' @ h"

definition libcamera_command :: "string list" where
  "libcamera_command =
     [''libcamera-vid'', ''-t'', ''0'', ''--inline'', ''--nopreview'', ''--rotation'', ''180'',
      ''--width'', takeWhile (\<lambda>c. c \<noteq> CHR ''x'') RESOLUTION,
      ''--height'', drop 1 (dropWhile (\<lambda>c. c \<noteq> CHR ''x'') RESOLUTION),
      ''--framerate'', FRAMERATE, ''--codec'', ''h264'', ''--bitrate'', VIDEO_BITRATE,
      ''-o'', ''-'']"

definition ffmpeg_command :: "string \<Rightarrow> string list" where
  "ffmpeg_command h =
     [''ffmpeg'', ''-i'', ''-'', ''-c:v'', ''copy'', ''-f'', ''flv'', ''-loglevel'', ''warning'',
      RTMP_URL h]"

subsection \<open>Connectivity and the lifecycle notifier\<close>

definition start_camera_feed :: "post_outcome \<Rightarrow> state \<Rightarrow> string \<times> state" where
  "start_camera_feed p s =
     (let s1 = emit (HttpPost ''https://www.arcturusbusiness.com/helmetFeed/login/camStart.php''
                       (hostname s)) s
      in case p of
           Response text \<Rightarrow>
             (text, emit (Print (''on camera api: '' @ text)) (s1\<lparr>status := 1\<rparr>))
         | RequestException e \<Rightarrow> (''Error: '' @ e, s1))"

definition check_internet :: "conn \<Rightarrow> state \<Rightarrow> bool \<times> state" where
  "check_internet c s = (case c of Connected \<Rightarrow> (True, emit Connect s)
                                 | OSError \<Rightarrow> (False, emit Connect s))"

definition wait_retry :: "state \<Rightarrow> state" where
  \<comment> \<open>the body of the loop of \<open>wait_for_internet\<close>\<close>
  "wait_retry s = sleep 1 ((log_message ''Waiting for internet connection...'' s)\<lparr>status := 0\<rparr>)"

definition wait_done :: "post_outcome \<Rightarrow> state \<Rightarrow> state" where
  \<comment> \<open>what \<open>wait_for_internet\<close> does after its loop\<close>
  "wait_done p s =
     (let s1 = log_message ''Internet connection established!'' s
      in if status s1 = 0 then snd (start_camera_feed p s1) else s1)"

fun wait_for_internet :: "conn list \<Rightarrow> post_outcome \<Rightarrow> state \<Rightarrow> state option" where
  \<comment> \<open>the answers of the successive probes; None: none of them succeeds, the wait goes on\<close>
  "wait_for_internet [] p s = None"
| "wait_for_internet (c # cs) p s =
     (case check_internet c s of
        (True, s1) \<Rightarrow> Some (wait_done p s1)
      | (False, s1) \<Rightarrow> wait_for_internet cs p (wait_retry s1))"

subsection \<open>Teardown\<close>

definition kill_body :: "kill_obs \<Rightarrow> state \<Rightarrow> unit outcome" where
  \<comment> \<open>the \<open>try\<close> block of \<open>kill_camera_processes\<close>\<close>
  "kill_body k s =
     (let s1 = emit (Run [''pkill'', ''-f'', ''libcamera'']) s
      in case pkill_libcamera k of
           RunRaises e \<Rightarrow> Raise e s1
         | Completed rc1 \<Rightarrow>
             (let s2 = emit (Run [''pkill'', ''-f'', ''ffmpeg'']) s1
              in case pkill_ffmpeg k of
                   RunRaises e \<Rightarrow> Raise e s2
                 | Completed rc2 \<Rightarrow> Return () (sleep 2 s2)))"

definition kill_camera_processes :: "kill_obs \<Rightarrow> state \<Rightarrow> unit outcome" where
  "kill_camera_processes k s =
     (case kill_body k s of
        Return u s1 \<Rightarrow> Return u s1
      | Raise TimeoutExpired s1 \<Rightarrow>
          Return () (log_message ''Warning: Timeout while killing processes'' s1)
      | Raise (OtherException m) s1 \<Rightarrow>
          Return () (log_message (''Error killing processes: '' @ m) s1))"

subsection \<open>The health monitor of one diagnostic stream\<close>

definition monitor_process_output :: "nat \<Rightarrow> string option \<Rightarrow> string \<Rightarrow> state \<Rightarrow> bool \<times> state" where
  \<comment> \<open>the process (its pid), what its stderr holds, and \<open>process_name\<close>\<close>
  "monitor_process_output process rd process_name s =
     (let s1 = emit (Select process) s
      in case rd of
           None \<Rightarrow> (False, s1)
         | Some raw \<Rightarrow>
             (let s2 = emit (Readline process) s1;
                  error_output = strip raw
              in if error_output \<noteq> [] then
                   if process_name = ''libcamera'' \<and> contains ''INFO'' error_output then
                     (False, log_message (''libcamera info: '' @ error_output) s2)
                   else if list_ex (\<lambda>error_term. contains error_term (lower error_output)) error_terms then
                     (True, log_message (process_name @ '' error: '' @ error_output) s2)
                   else (False, log_message (process_name @ '' output: '' @ error_output) s2)
                 else (False, s2)))"

subsection \<open>The launcher\<close>

definition start_body :: "launch_obs \<Rightarrow> state \<Rightarrow> handle option outcome" where
  \<comment> \<open>the \<open>try\<close> block of \<open>start_streaming\<close>\<close>
  "start_body l s =
     (case kill_camera_processes (launch_kill l) s of
        Raise e s1 \<Rightarrow> Raise e s1
      | Return u s1 \<Rightarrow>
          (let s2 = emit (Popen libcamera_command) (log_message ''Starting libcamera process...'' s1)
           in case popen_libcamera l of
                PopenRaises m \<Rightarrow> Raise (OtherException m) s2
              | Started libcamera_process \<Rightarrow>
                  (let s3 = emit (Poll libcamera_process) (sleep 1 s2)
                   in if settle_poll l \<noteq> None then
                        Return None
                          (log_message (''libcamera failed to start: '' @ settle_stderr l)
                             (emit (ReadAll libcamera_process) s3))
                      else
                        (let s4 = emit (Popen (ffmpeg_command (hostname s)))
                                    (log_message ''Starting ffmpeg process...'' s3)
                         in case popen_ffmpeg l of
                              PopenRaises m \<Rightarrow> Raise (OtherException m) s4
                            | Started ffmpeg_process \<Rightarrow>
                                Return (Some (libcamera_process, ffmpeg_process))
                                  (log_message ''Streaming started successfully''
                                     (emit (CloseStdout libcamera_process) s4))))))"

definition start_streaming :: "launch_obs \<Rightarrow> state \<Rightarrow> handle option outcome" where
  "start_streaming l s =
     (case start_body l s of
        Return r s1 \<Rightarrow> Return r s1
      | Raise e s1 \<Rightarrow> Return None (log_message (''Error starting stream: '' @ exn_text e) s1))"

subsection \<open>The supervisor \<open>main\<close> as a machine\<close>

text \<open>
  One step is one pass through a loop of \<open>main\<close>: the start-up, one probe of the
  connectivity wait, one launch attempt of the retry loop, or one iteration of the
  streaming poll. The places between the steps are the observable points. A
  KeyboardInterrupt is taken between two steps, where the program sleeps.
\<close>

definition max_retries :: nat where "max_retries = 3"

definition main_finally :: "kill_obs \<Rightarrow> state \<Rightarrow> unit outcome" where
  \<comment> \<open>the \<open>finally\<close> block of \<open>main\<close>\<close>
  "main_finally k s =
     (case kill_camera_processes k s of
        Return u s1 \<Rightarrow> Return () (GPIO_cleanup s1)
      | Raise e s1 \<Rightarrow> Raise e s1)"

definition process_exit :: "state \<Rightarrow> state" where
  \<comment> \<open>the \<open>finally\<close> block under \<open>__main__\<close>\<close>
  "process_exit s = (log_message ''Process exited'' (GPIO_cleanup s))\<lparr>pc := EXITED\<rparr>"

definition on_interrupt :: "kill_obs \<Rightarrow> state \<Rightarrow> state" where
  \<comment> \<open>a KeyboardInterrupt inside the \<open>try\<close> of \<open>main\<close>\<close>
  "on_interrupt k s =
     (case main_finally k s of
        Return u s1 \<Rightarrow>
          process_exit (log_message ''\<newline>Received keyboard interrupt, shutting down...'' s1)
      | Raise e s1 \<Rightarrow> process_exit s1)"

definition on_exception :: "exn \<Rightarrow> kill_obs \<Rightarrow> state \<Rightarrow> state" where
  \<comment> \<open>an \<open>Exception\<close> inside the \<open>try\<close> of \<open>main\<close>\<close>
  "on_exception e k s =
     (case main_finally k (log_message (''Exited with: '' @ exn_text e) s) of
        Return u s1 \<Rightarrow> process_exit s1
      | Raise e' s1 \<Rightarrow> process_exit s1)"

definition cooldown :: "state \<Rightarrow> state" where
  \<comment> \<open>the end of the outer loop body; the next pass starts with \<open>wait_for_internet\<close>\<close>
  "cooldown s =
     (sleep 3 (log_message ''Restarting streaming service in 3 seconds...'' s))\<lparr>pc := AWAITING_NETWORK\<rparr>"

definition stop_stream :: "obs \<Rightarrow> state \<Rightarrow> state" where
  \<comment> \<open>\<open>GPIO.output(18, GPIO.LOW); kill_camera_processes(); break\<close>\<close>
  "stop_stream ob s =
     (case kill_camera_processes (kill ob) (GPIO_output 18 False s) of
        Return u s1 \<Rightarrow> cooldown s1
      | Raise e s1 \<Rightarrow> on_exception e (final_kill ob) s1)"

definition step_start :: "obs \<Rightarrow> state \<Rightarrow> state" where
  "step_start ob s =
     (case kill_camera_processes (kill ob)
             (log_message ''Starting RTMP streaming service'' (s\<lparr>count := 0\<rparr>)) of
        Return u s1 \<Rightarrow> s1\<lparr>pc := AWAITING_NETWORK\<rparr>
      | Raise e s1 \<Rightarrow> on_exception e (final_kill ob) s1)"

definition step_wait :: "obs \<Rightarrow> state \<Rightarrow> state" where
  "step_wait ob s =
     (case check_internet (net ob) s of
        (True, s1) \<Rightarrow> (wait_done (post ob) s1)\<lparr>pc := LAUNCHING 0\<rparr>
      | (False, s1) \<Rightarrow> wait_retry s1)"

definition step_launch :: "nat \<Rightarrow> obs \<Rightarrow> state \<Rightarrow> state" where
  "step_launch retry ob s =
     (case start_streaming (launch ob) s of
        Raise e s1 \<Rightarrow> on_exception e (final_kill ob) s1
      | Return (Some processes) s1 \<Rightarrow>
          (log_message ''Stream started'' (GPIO_output 18 True s1))\<lparr>pc := STREAMING processes\<rparr>
      | Return None s1 \<Rightarrow>
          (let s2 = sleep 3 (log_message (''Retry '' @ str (int (retry + 1)) @ ''/''
                                            @ str (int max_retries)) s1)
           in if retry + 1 < max_retries then s2\<lparr>pc := LAUNCHING (retry + 1)\<rparr>
              else cooldown s2))"

definition step_stream :: "handle \<Rightarrow> obs \<Rightarrow> state \<Rightarrow> state" where
  "step_stream processes ob s =
     (let libcamera_process = fst processes; ffmpeg_process = snd processes;
          s1 = (log_message (''Stream uptime: '' @ str (int (uptime ob)) @ '' seconds (loop count: ''
                               @ str (int (count s)) @ '')'') s)\<lparr>count := count s + 1\<rparr>;
          s2 = emit (Poll ffmpeg_process) (emit (Poll libcamera_process) s1)
      in case libcamera_status ob of
           Some rc \<Rightarrow>
             stop_stream ob
               (log_message (''libcamera final output: '' @ libcamera_final ob)
                  (emit (ReadAll libcamera_process)
                     (log_message (''libcamera process exited with status: '' @ str rc) s2)))
         | None \<Rightarrow>
            (case ffmpeg_status ob of
               Some rc \<Rightarrow>
                 stop_stream ob
                   (log_message (''ffmpeg final output: '' @ ffmpeg_final ob)
                      (emit (ReadAll ffmpeg_process)
                         (log_message (''ffmpeg process exited with status: '' @ str rc) s2)))
             | None \<Rightarrow>
                (case monitor_process_output libcamera_process (libcamera_line ob) ''libcamera'' s2 of
                   (True, s3) \<Rightarrow> stop_stream ob (log_message ''Error detected in process output'' s3)
                 | (False, s3) \<Rightarrow>
                    (case monitor_process_output ffmpeg_process (ffmpeg_line ob) ''ffmpeg'' s3 of
                       (True, s4) \<Rightarrow>
                         stop_stream ob (log_message ''Error detected in process output'' s4)
                     | (False, s4) \<Rightarrow>
                        (case check_internet (net ob) s4 of
                           (False, s5) \<Rightarrow>
                             stop_stream ob (log_message ''Internet connection lost'' s5)
                         | (True, s5) \<Rightarrow> sleep 3 s5)))))"

definition step :: "obs \<Rightarrow> state \<Rightarrow> state" where
  "step ob s =
     (case pc s of
        EXITED \<Rightarrow> s
      | START \<Rightarrow> if interrupt ob then on_interrupt (final_kill ob) s else step_start ob s
      | AWAITING_NETWORK \<Rightarrow> if interrupt ob then on_interrupt (final_kill ob) s else step_wait ob s
      | LAUNCHING retry \<Rightarrow>
          if interrupt ob then on_interrupt (final_kill ob) s else step_launch retry ob s
      | STREAMING processes \<Rightarrow>
          if interrupt ob then on_interrupt (final_kill ob) s else step_stream processes ob s)"

fun run :: "obs list \<Rightarrow> state \<Rightarrow> state" where
  "run [] s = s"
| "run (ob # obs) s = run obs (step ob s)"

definition initial :: "string \<Rightarrow> state" where
  \<comment> \<open>after the module's set-up: both channels are outputs, not yet driven high\<close>
  "initial h = \<lparr>status = 0, pin18 = Out False, pin23 = Out False, hostname = h, trace = [],
                 pc = START, count = 0\<rparr>"

subsection \<open>What each call does, written out\<close>

text \<open>
  The events and the result of the teardown, of the launcher and of the monitor, as
  functions of the answers of the outside world. They are derived: the lemmas
  \<open>kill_camera_processes_eq\<close>, \<open>start_streaming_eq\<close> and \<open>monitor_process_output_eq\<close>
  prove that the program computes exactly these.
\<close>

definition kill_events :: "kill_obs \<Rightarrow> event list" where
  "kill_events k =
     Run [''pkill'', ''-f'', ''libcamera''] #
     (case pkill_libcamera k of
        RunRaises TimeoutExpired \<Rightarrow> [Log ''Warning: Timeout while killing processes'']
      | RunRaises (OtherException m) \<Rightarrow> [Log (''Error killing processes: '' @ m)]
      | Completed rc1 \<Rightarrow>
          Run [''pkill'', ''-f'', ''ffmpeg''] #
          (case pkill_ffmpeg k of
             RunRaises TimeoutExpired \<Rightarrow> [Log ''Warning: Timeout while killing processes'']
           | RunRaises (OtherException m) \<Rightarrow> [Log (''Error killing processes: '' @ m)]
           | Completed rc2 \<Rightarrow> [Sleep 2]))"

definition start_result :: "launch_obs \<Rightarrow> handle option" where
  "start_result l =
     (case popen_libcamera l of
        PopenRaises m \<Rightarrow> None
      | Started c \<Rightarrow>
          (case settle_poll l of
             Some rc \<Rightarrow> None
           | None \<Rightarrow> (case popen_ffmpeg l of PopenRaises m \<Rightarrow> None | Started p \<Rightarrow> Some (c, p))))"

definition start_events :: "launch_obs \<Rightarrow> string \<Rightarrow> event list" where
  "start_events l h =
     kill_events (launch_kill l) @ [Log ''Starting libcamera process...'', Popen libcamera_command] @
     (case popen_libcamera l of
        PopenRaises m \<Rightarrow> [Log (''Error starting stream: '' @ m)]
      | Started c \<Rightarrow>
          [Sleep 1, Poll c] @
          (case settle_poll l of
             Some rc \<Rightarrow> [ReadAll c, Log (''libcamera failed to start: '' @ settle_stderr l)]
           | None \<Rightarrow>
               [Log ''Starting ffmpeg process...'', Popen (ffmpeg_command h)] @
               (case popen_ffmpeg l of
                  PopenRaises m \<Rightarrow> [Log (''Error starting stream: '' @ m)]
                | Started p \<Rightarrow> [CloseStdout c, Log ''Streaming started successfully''])))"

definition verdict :: "string option \<Rightarrow> string \<Rightarrow> bool" where
  "verdict rd process_name =
     (case rd of None \<Rightarrow> False
      | Some raw \<Rightarrow>
          strip raw \<noteq> [] \<and> \<not> (process_name = ''libcamera'' \<and> contains ''INFO'' (strip raw)) \<and>
          list_ex (\<lambda>error_term. contains error_term (lower (strip raw))) error_terms)"

definition monitor_events :: "nat \<Rightarrow> string option \<Rightarrow> string \<Rightarrow> event list" where
  "monitor_events process rd process_name =
     (case rd of None \<Rightarrow> [Select process]
      | Some raw \<Rightarrow>
          [Select process, Readline process] @
          (if strip raw = [] then []
           else if process_name = ''libcamera'' \<and> contains ''INFO'' (strip raw)
             then [Log (''libcamera info: '' @ strip raw)]
           else if verdict rd process_name then [Log (process_name @ '' error: '' @ strip raw)]
           else [Log (process_name @ '' output: '' @ strip raw)]))"

subsection \<open>Projections of the trace and sample inputs\<close>



fun is_check :: "event \<Rightarrow> bool" where
  \<comment> \<open>the calls by which the supervisor inspects the outside world: an exit status, the
     remaining output of an exited process, a look at a diagnostic stream, a probe\<close>
  "is_check (Poll process) = True"
| "is_check (ReadAll process) = True"
| "is_check (Select process) = True"
| "is_check Connect = True"
| "is_check e = False"

fun is_post :: "event \<Rightarrow> bool" where
  "is_post (HttpPost url name) = True"
| "is_post e = False"

definition notifier_calls :: "state \<Rightarrow> nat" where
  \<comment> \<open>how often \<open>start_camera_feed\<close> has posted so far\<close>
  "notifier_calls s = length (filter is_post (trace s))"

definition launch_fails :: "launch_obs \<Rightarrow> state \<Rightarrow> bool" where
  \<comment> \<open>\<open>start_streaming\<close> returns no handle\<close>
  "launch_fails l s = (case start_streaming l s of Return None s1 \<Rightarrow> True | _ \<Rightarrow> False)"

definition pace :: "event \<Rightarrow> bool" where
  \<comment> \<open>the events that mark the rhythm of the retry loop: a launch of the capture process,
     a sleep of 3 seconds, the announcement of the cool-down\<close>
  "pace e = (e = Popen libcamera_command \<or> e = Sleep 3 \<or>
             e = Log ''Restarting streaming service in 3 seconds...'')"

definition no_processes :: kill_obs where
  "no_processes = \<lparr>pkill_libcamera = Completed 1, pkill_ffmpeg = Completed 1\<rparr>"

definition good_launch :: launch_obs where
  "good_launch = \<lparr>launch_kill = no_processes, popen_libcamera = Started 101, settle_poll = None,
                   settle_stderr = [], popen_ffmpeg = Started 102\<rparr>"

definition quiet :: obs where
  "quiet = \<lparr>interrupt = False, net = Connected, post = Response ''ok'', kill = no_processes,
             final_kill = no_processes, launch = good_launch, uptime = 0,
             libcamera_status = None, ffmpeg_status = None, libcamera_final = [],
             ffmpeg_final = [], libcamera_line = None, ffmpeg_line = None\<rparr>"

definition bad_launch :: launch_obs where
  \<comment> \<open>the capture process exits at once\<close>
  "bad_launch = good_launch\<lparr>settle_poll := Some 1, settle_stderr := ''no cameras available''\<rparr>"

definition failing :: obs where
  "failing = quiet\<lparr>launch := bad_launch\<rparr>"

definition offline :: obs where
  "offline = quiet\<lparr>net := OSError\<rparr>"

definition rejected :: obs where
  \<comment> \<open>the notification fails\<close>
  "rejected = quiet\<lparr>post := RequestException ''503 Server Error''\<rparr>"

definition capture_exited :: obs where
  "capture_exited = quiet\<lparr>libcamera_status := Some 1\<rparr>"


section \<open>Properties\<close>

declare digits.simps [simp del]

subsection \<open>The calls written out\<close>

lemma emit_simps [simp]:
  "trace (emit e s) = trace s @ [e]" "status (emit e s) = status s" "pin18 (emit e s) = pin18 s"
  "pin23 (emit e s) = pin23 s" "hostname (emit e s) = hostname s" "pc (emit e s) = pc s"
  "count (emit e s) = count s"
  by (simp_all add: emit_def)

lemma emit_trace: "emit e s = s\<lparr>trace := trace s @ [e]\<rparr>"
  by (simp add: emit_def)

lemma kill_camera_processes_eq:
  "kill_camera_processes k s = Return () (s\<lparr>trace := trace s @ kill_events k\<rparr>)"
  by (simp add: kill_camera_processes_def kill_body_def kill_events_def emit_trace log_message_def
      sleep_def Let_def split: run_outcome.splits exn.splits)

lemma start_streaming_eq:
  "start_streaming l s =
     Return (start_result l) (s\<lparr>trace := trace s @ start_events l (hostname s)\<rparr>)"
  by (simp add: start_streaming_def start_body_def kill_camera_processes_eq start_result_def
      start_events_def emit_trace log_message_def sleep_def Let_def exn_text_def
      split: popen_outcome.splits option.splits)

lemma monitor_process_output_eq:
  "monitor_process_output process rd process_name s =
     (verdict rd process_name, s\<lparr>trace := trace s @ monitor_events process rd process_name\<rparr>)"
  by (simp add: monitor_process_output_def verdict_def monitor_events_def emit_trace
      log_message_def Let_def split: option.splits)


subsection \<open>Substrings survive \<open>strip\<close>\<close>












subsection \<open>Classification of diagnostic lines\<close>




subsection \<open>The machine\<close>

lemma check_internet_eq: "check_internet c s = (c = Connected, emit Connect s)"
  by (simp add: check_internet_def split: conn.splits)

lemmas step_defs =
  step_def step_start_def step_wait_def step_launch_def step_stream_def stop_stream_def
  cooldown_def on_exception_def on_interrupt_def main_finally_def process_exit_def
  wait_done_def wait_retry_def start_camera_feed_def
  kill_camera_processes_eq start_streaming_eq monitor_process_output_eq check_internet_eq
  log_message_def sleep_def GPIO_output_def GPIO_cleanup_def Let_def

lemmas step_splits = loc.splits option.splits post_outcome.splits bool.splits






lemma start_result_kill [simp]: "start_result (l\<lparr>launch_kill := k\<rparr>) = start_result l"
  by (simp add: start_result_def split: popen_outcome.splits option.splits)

text \<open>
  C9. Teardown is total: whatever the two pkill calls answer (processes killed, none
  matched, a timeout, any other exception) it returns normally and changes nothing but the
  trace; a second call right after the first returns normally too; and the step of the
  supervisor reaches the same state, the log apart, whatever the teardowns in it answer.
\<close>
theorem teardown_total:
  "(\<exists>es. kill_camera_processes k s = Return () (s\<lparr>trace := trace s @ es\<rparr>)) \<and>
   (\<exists>s1 s2. kill_camera_processes k s = Return () s1 \<and> kill_camera_processes k' s1 = Return () s2) \<and>
   (step (ob\<lparr>kill := k1, final_kill := k2, launch := (launch ob)\<lparr>launch_kill := k3\<rparr>\<rparr>) s)\<lparr>trace := []\<rparr>
     = (step ob s)\<lparr>trace := []\<rparr>"
  by (auto simp: step_defs emit_def split: step_splits)

theorem teardown_total_witness:
  "\<exists>es. kill_camera_processes \<lparr>pkill_libcamera = RunRaises TimeoutExpired, pkill_ffmpeg = Completed 1\<rparr>
           (initial ''cam'') =
         Return () ((initial ''cam'')\<lparr>trace := trace (initial ''cam'') @ es\<rparr>)"
  using teardown_total [of "\<lparr>pkill_libcamera = RunRaises TimeoutExpired, pkill_ffmpeg = Completed 1\<rparr>"
      "initial ''cam''"] by blast





lemma filter_check_kill [simp]: "filter is_check (kill_events k) = []"
  by (simp add: kill_events_def split: run_outcome.splits exn.splits)

lemma filter_check_monitor [simp]: "filter is_check (monitor_events pr rd n) = [Select pr]"
  by (simp add: monitor_events_def split: option.splits)



subsection \<open>The retry budget\<close>

lemma launch_fails_iff: "launch_fails l s \<longleftrightarrow> start_result l = None"
  by (simp add: launch_fails_def start_streaming_eq split: option.splits)

lemma command_neq [simp]: "ffmpeg_command h \<noteq> libcamera_command"
  by (simp add: ffmpeg_command_def libcamera_command_def)

lemma filter_pace_kill [simp]: "filter pace (kill_events k) = []"
  by (simp add: kill_events_def pace_def split: run_outcome.splits exn.splits)

lemma filter_pace_start [simp]: "filter pace (start_events l h) = [Popen libcamera_command]"
  by (simp add: start_events_def pace_def split: popen_outcome.splits option.splits)

lemma step_launch_fail:
  assumes "pc s = LAUNCHING r" "\<not> interrupt ob" "launch_fails (launch ob) s"
  shows "pc (step ob s) = (if r + 1 < 3 then LAUNCHING (r + 1) else AWAITING_NETWORK)"
    and "filter pace (trace (step ob s)) =
           filter pace (trace s) @ [Popen libcamera_command, Sleep 3] @
           (if r + 1 < 3 then [] else [Log ''Restarting streaming service in 3 seconds...'', Sleep 3])"
    and "status (step ob s) = status s"
  using assms
  by (simp_all add: launch_fails_iff step_defs max_retries_def pace_def)

lemma step_retry_bound:
  "(\<forall>r. pc s = LAUNCHING r \<longrightarrow> r < 3) \<Longrightarrow> pc (step ob s) = LAUNCHING r \<Longrightarrow> r < 3"
  by (auto simp: step_defs max_retries_def split: step_splits if_splits)

lemma run_retry_bound:
  "(\<forall>r. pc s = LAUNCHING r \<longrightarrow> r < 3) \<Longrightarrow> pc (run obs s) = LAUNCHING r \<Longrightarrow> r < 3"
proof (induction obs arbitrary: s r)
  case Nil
  then show ?case by simp
next
  case (Cons ob obs)
  have "\<forall>r. pc (step ob s) = LAUNCHING r \<longrightarrow> r < 3"
    using Cons.prems(1) step_retry_bound by blast
  then show ?case using Cons.IH Cons.prems(2) by simp
qed

lemma step_wait_done:
  "pc s = AWAITING_NETWORK \<Longrightarrow> \<not> interrupt ob \<Longrightarrow> net ob = Connected \<Longrightarrow>
   pc (step ob s) = LAUNCHING 0"
  by (simp add: step_defs split: post_outcome.splits)

text \<open>
  C4. A cycle starts its retry loop at attempt 0. If three launch attempts in a row fail,
  the loop goes through attempts 0, 1 and 2, each launch followed by a sleep of 3 seconds,
  then the supervisor sleeps the 3 seconds of the cool-down and is back in the
  connectivity wait: it has neither exited nor stopped. The next completed wait starts the
  retry loop at attempt 0 again, and the attempt number never reaches 3.
\<close>
theorem retry_budget:
  assumes "pc s = LAUNCHING 0"
    and "\<not> interrupt o1" "\<not> interrupt o2" "\<not> interrupt o3"
    and "launch_fails (launch o1) s"
    and "launch_fails (launch o2) (run [o1] s)"
    and "launch_fails (launch o3) (run [o1, o2] s)"
  shows "pc (run [o1] s) = LAUNCHING 1 \<and> pc (run [o1, o2] s) = LAUNCHING 2 \<and>
         pc (run [o1, o2, o3] s) = AWAITING_NETWORK \<and>
         filter pace (trace (run [o1, o2, o3] s)) =
           filter pace (trace s) @
           [Popen libcamera_command, Sleep 3, Popen libcamera_command, Sleep 3,
            Popen libcamera_command, Sleep 3,
            Log ''Restarting streaming service in 3 seconds...'', Sleep 3] \<and>
         (\<not> interrupt o4 \<and> net o4 = Connected \<longrightarrow> pc (run [o1, o2, o3, o4] s) = LAUNCHING 0) \<and>
         (\<forall>obs r. pc (run obs s) = LAUNCHING r \<longrightarrow> r < 3)"
proof -
  have p1: "pc (step o1 s) = LAUNCHING 1"
    using step_launch_fail(1) [OF assms(1) assms(2) assms(5)] by simp
  have t1: "filter pace (trace (step o1 s)) = filter pace (trace s) @ [Popen libcamera_command, Sleep 3]"
    using step_launch_fail(2) [OF assms(1) assms(2) assms(5)] by simp
  have f2: "launch_fails (launch o2) (step o1 s)" using assms(6) by simp
  have p2: "pc (step o2 (step o1 s)) = LAUNCHING 2"
    using step_launch_fail(1) [OF p1 assms(3) f2] by simp
  have t2: "filter pace (trace (step o2 (step o1 s))) =
              filter pace (trace (step o1 s)) @ [Popen libcamera_command, Sleep 3]"
    using step_launch_fail(2) [OF p1 assms(3) f2] by simp
  have f3: "launch_fails (launch o3) (step o2 (step o1 s))" using assms(7) by simp
  have p3: "pc (step o3 (step o2 (step o1 s))) = AWAITING_NETWORK"
    using step_launch_fail(1) [OF p2 assms(4) f3] by simp
  have t3: "filter pace (trace (step o3 (step o2 (step o1 s)))) =
              filter pace (trace (step o2 (step o1 s))) @
              [Popen libcamera_command, Sleep 3,
               Log ''Restarting streaming service in 3 seconds...'', Sleep 3]"
    using step_launch_fail(2) [OF p2 assms(4) f3] by simp
  have b: "\<forall>obs r. pc (run obs s) = LAUNCHING r \<longrightarrow> r < 3"
    using run_retry_bound [of s] assms(1) by auto
  show ?thesis
    using p1 p2 p3 t1 t2 t3 b step_wait_done [OF p3] by simp
qed

theorem retry_budget_witness:
  "pc (run [quiet, quiet] (initial ''cam'')) = LAUNCHING 0 \<and> \<not> interrupt failing \<and>
   launch_fails (launch failing) (run [quiet, quiet] (initial ''cam'')) \<and>
   launch_fails (launch failing) (run [failing] (run [quiet, quiet] (initial ''cam''))) \<and>
   launch_fails (launch failing) (run [failing, failing] (run [quiet, quiet] (initial ''cam''))) \<and>
   pc (run [failing, failing, failing] (run [quiet, quiet] (initial ''cam''))) = AWAITING_NETWORK \<and>
   \<not> interrupt quiet \<and> net quiet = Connected \<and>
   pc (run [failing, failing, failing, quiet] (run [quiet, quiet] (initial ''cam''))) = LAUNCHING 0"
proof -
  have a: "pc (run [quiet, quiet] (initial ''cam'')) = LAUNCHING 0" by code_simp
  have b: "\<not> interrupt failing" by code_simp
  have c: "launch_fails (launch failing) (run [quiet, quiet] (initial ''cam''))" by code_simp
  have d: "launch_fails (launch failing) (run [failing] (run [quiet, quiet] (initial ''cam'')))"
    by code_simp
  have e: "launch_fails (launch failing) (run [failing, failing] (run [quiet, quiet] (initial ''cam'')))"
    by code_simp
  have f: "\<not> interrupt quiet \<and> net quiet = Connected" by code_simp
  from retry_budget [OF a b b b c d e, of quiet] f
  have "pc (run [failing, failing, failing] (run [quiet, quiet] (initial ''cam''))) = AWAITING_NETWORK \<and>
        pc (run [failing, failing, failing, quiet] (run [quiet, quiet] (initial ''cam''))) = LAUNCHING 0"
    by blast
  with a b c d e f show ?thesis by blast
qed

subsection \<open>The notification flag\<close>

lemma filter_post_kill [simp]: "filter is_post (kill_events k) = []"
  by (simp add: kill_events_def split: run_outcome.splits exn.splits)

lemma filter_post_start [simp]: "filter is_post (start_events l h) = []"
  by (simp add: start_events_def split: popen_outcome.splits option.splits)

lemma filter_post_monitor [simp]: "filter is_post (monitor_events pr rd n) = []"
  by (simp add: monitor_events_def split: option.splits)

lemma step_notified:
  "status s \<noteq> 0 \<Longrightarrow> net ob = Connected \<Longrightarrow>
   notifier_calls (step ob s) = notifier_calls s \<and> status (step ob s) = status s"
  by (auto simp: step_defs notifier_calls_def split: step_splits)

lemma run_notified:
  "status s \<noteq> 0 \<Longrightarrow> \<forall>ob \<in> set obs. net ob = Connected \<Longrightarrow>
   notifier_calls (run obs s) = notifier_calls s \<and> status (run obs s) = status s"
proof (induction obs arbitrary: s)
  case Nil
  then show ?case by simp
next
  case (Cons ob obs)
  then have a: "notifier_calls (step ob s) = notifier_calls s \<and> status (step ob s) = status s"
    by (simp add: step_notified)
  with Cons.prems have "status (step ob s) \<noteq> 0" by simp
  with Cons.IH Cons.prems(2) a show ?case by simp
qed

text \<open>
  C2, amended. Within a connectivity epoch (every probe succeeds), once a notification has
  succeeded the notifier is not invoked again, however often the supervisor re-enters the
  wait. While the flag is still not-yet-notified, each completion of the wait invokes the
  notifier exactly once; the outcome of the call does not alter control flow; a success
  sets the flag, a failure leaves it not-yet-notified, so the next completion of the wait
  tries again.
\<close>
theorem notified_once_it_succeeds:
  "(status s \<noteq> 0 \<longrightarrow> (\<forall>ob \<in> set obs. net ob = Connected) \<longrightarrow>
      notifier_calls (run obs s) = notifier_calls s \<and> status (run obs s) = status s) \<and>
   (pc s = AWAITING_NETWORK \<and> \<not> interrupt ob \<and> net ob = Connected \<and> status s = 0 \<longrightarrow>
      notifier_calls (step ob s) = notifier_calls s + 1 \<and> pc (step ob s) = LAUNCHING 0 \<and>
      status (step ob s) = (case post ob of Response text \<Rightarrow> 1 | RequestException e \<Rightarrow> 0))"
proof (intro conjI impI)
  assume "status s \<noteq> 0" "\<forall>ob \<in> set obs. net ob = Connected"
  then show "notifier_calls (run obs s) = notifier_calls s" "status (run obs s) = status s"
    by (simp_all add: run_notified)
next
  assume h: "pc s = AWAITING_NETWORK \<and> \<not> interrupt ob \<and> net ob = Connected \<and> status s = 0"
  then show "notifier_calls (step ob s) = notifier_calls s + 1" "pc (step ob s) = LAUNCHING 0"
    "status (step ob s) = (case post ob of Response text \<Rightarrow> 1 | RequestException e \<Rightarrow> 0)"
    by (simp_all add: step_defs notifier_calls_def split: post_outcome.splits)
qed

theorem notified_once_it_succeeds_witness:
  "status (run [quiet, quiet] (initial ''cam'')) \<noteq> 0 \<and>
   net quiet = Connected \<and> net capture_exited = Connected \<and>
   notifier_calls (run [quiet, capture_exited, quiet] (run [quiet, quiet] (initial ''cam''))) =
     notifier_calls (run [quiet, quiet] (initial ''cam'')) \<and>
   pc (run [quiet] (initial ''cam'')) = AWAITING_NETWORK \<and> \<not> interrupt rejected \<and>
   net rejected = Connected \<and> status (run [quiet] (initial ''cam'')) = 0 \<and>
   notifier_calls (step rejected (run [quiet] (initial ''cam''))) =
     notifier_calls (run [quiet] (initial ''cam'')) + 1 \<and>
   status (step rejected (run [quiet] (initial ''cam''))) = 0"
proof -
  have a: "status (run [quiet, quiet] (initial ''cam'')) \<noteq> 0" by code_simp
  have b': "net quiet = Connected \<and> net capture_exited = Connected" by code_simp
  then have b: "\<forall>ob \<in> set [quiet, capture_exited, quiet]. net ob = Connected" by simp
  have c: "pc (run [quiet] (initial ''cam'')) = AWAITING_NETWORK \<and> \<not> interrupt rejected \<and>
   net rejected = Connected \<and> status (run [quiet] (initial ''cam'')) = 0" by code_simp
  have d: "post rejected = RequestException ''503 Server Error''" by code_simp
  from notified_once_it_succeeds [of "run [quiet, quiet] (initial ''cam'')"
      "[quiet, capture_exited, quiet]"] a b
  have e: "notifier_calls (run [quiet, capture_exited, quiet] (run [quiet, quiet] (initial ''cam''))) =
     notifier_calls (run [quiet, quiet] (initial ''cam''))" by blast
  from notified_once_it_succeeds [of "run [quiet] (initial ''cam'')" "[]" rejected] c
  have f: "notifier_calls (step rejected (run [quiet] (initial ''cam''))) =
     notifier_calls (run [quiet] (initial ''cam'')) + 1 \<and>
     status (step rejected (run [quiet] (initial ''cam''))) =
       (case post rejected of Response text \<Rightarrow> 1 | RequestException e \<Rightarrow> 0)" by blast
  with d have g: "status (step rejected (run [quiet] (initial ''cam''))) = 0" by simp
  from a b' c e f g show ?thesis by blast
qed

text \<open>
  C2 as stated fails. Every probe succeeds (one epoch); the first notification is
  rejected; the stream starts, the capture process exits, the supervisor re-enters the
  wait and invokes the notifier a second time.
\<close>
theorem failed_notification_retried:
  "list_all (\<lambda>ob. net ob = Connected) [quiet, rejected, quiet, capture_exited, rejected] \<and>
   notifier_calls (run [quiet, rejected, quiet, capture_exited, rejected] (initial ''cam'')) = 2"
  by code_simp

text \<open>
  C1 fails on the code. The pipeline streams, the flag is 1 and the notifier has been
  invoked once. The probe of the streaming poll fails: the supervisor tears the pipeline
  down, but the flag stays 1. The probe of the next wait succeeds, the wait completes,
  and the notifier is not invoked: still one call.
\<close>
theorem loss_in_poll_keeps_flag:
  "pc (run [quiet, quiet, quiet] (initial ''cam'')) = STREAMING (101, 102) \<and>
   status (run [quiet, quiet, quiet] (initial ''cam'')) = 1 \<and>
   notifier_calls (run [quiet, quiet, quiet] (initial ''cam'')) = 1 \<and>
   pc (run [quiet, quiet, quiet, offline] (initial ''cam'')) = AWAITING_NETWORK \<and>
   status (run [quiet, quiet, quiet, offline] (initial ''cam'')) = 1 \<and>
   pc (run [quiet, quiet, quiet, offline, quiet] (initial ''cam'')) = LAUNCHING 0 \<and>
   notifier_calls (run [quiet, quiet, quiet, offline, quiet] (initial ''cam'')) = 1"
  by code_simp

subsection \<open>The connectivity wait as a loop\<close>

lemma wait_for_internet_returns:
  "Connected \<in> set cs \<Longrightarrow> \<exists>s'. wait_for_internet cs p s = Some s'"
  by (induction cs arbitrary: s) (auto simp: check_internet_eq split: bool.splits)

lemma wait_for_internet_never:
  "Connected \<notin> set cs \<Longrightarrow> wait_for_internet cs p s = None"
  by (induction cs arbitrary: s) (auto simp: check_internet_eq split: bool.splits)

lemma wait_for_internet_status0:
  "status s = 0 \<Longrightarrow> wait_for_internet cs p s = Some s' \<Longrightarrow>
   notifier_calls s' = notifier_calls s + 1"
proof (induction cs arbitrary: s)
  case Nil
  then show ?case by simp
next
  case (Cons c cs)
  show ?case
  proof (cases c)
    case Connected
    with Cons.prems show ?thesis
      by (auto simp: check_internet_eq wait_done_def start_camera_feed_def log_message_def
          notifier_calls_def Let_def split: post_outcome.splits)
  next
    case OSError
    with Cons.prems have "wait_for_internet cs p (wait_retry (emit Connect s)) = Some s'"
      by (simp add: check_internet_eq)
    moreover have "status (wait_retry (emit Connect s)) = 0"
      by (simp add: wait_retry_def sleep_def log_message_def)
    ultimately have "notifier_calls s' = notifier_calls (wait_retry (emit Connect s)) + 1"
      using Cons.IH by blast
    then show ?thesis
      by (simp add: wait_retry_def sleep_def log_message_def notifier_calls_def)
  qed
qed

lemma wait_for_internet_after_loss:
  assumes "wait_for_internet (OSError # cs) p s = Some s'"
  shows "notifier_calls s' = notifier_calls s + 1"
proof -
  from assms have "wait_for_internet cs p (wait_retry (emit Connect s)) = Some s'"
    by (simp add: check_internet_eq)
  moreover have "status (wait_retry (emit Connect s)) = 0"
    by (simp add: wait_retry_def sleep_def log_message_def)
  ultimately have "notifier_calls s' = notifier_calls (wait_retry (emit Connect s)) + 1"
    by (rule wait_for_internet_status0 [rotated])
  then show ?thesis
    by (simp add: wait_retry_def sleep_def log_message_def notifier_calls_def)
qed

lemma wait_done_pc: "pc (wait_done p s) = pc s"
  by (simp add: wait_done_def start_camera_feed_def log_message_def Let_def
      split: post_outcome.splits)

lemma wait_retry_pc: "pc (wait_retry s) = pc s"
  by (simp add: wait_retry_def sleep_def log_message_def)

lemma step_wait_connected:
  assumes "pc s = AWAITING_NETWORK" "\<not> interrupt ob" "net ob = Connected"
  shows "step ob s = (wait_done (post ob) (emit Connect s))\<lparr>pc := LAUNCHING 0\<rparr>"
  using assms by (simp add: step_def step_wait_def check_internet_eq)

lemma step_wait_offline:
  assumes "pc s = AWAITING_NETWORK" "\<not> interrupt ob" "net ob = OSError"
  shows "step ob s = wait_retry (emit Connect s)"
  using assms by (simp add: step_def step_wait_def check_internet_eq)

lemma run_wait_loop:
  assumes "pc s = AWAITING_NETWORK" "\<forall>ob \<in> set obs. \<not> interrupt ob \<and> net ob = OSError"
    and "\<not> interrupt ob'" "net ob' = Connected"
  shows "map_option (\<lambda>s'. s'\<lparr>pc := LAUNCHING 0\<rparr>)
           (wait_for_internet (map net (obs @ [ob'])) (post ob') s) =
         Some (run (obs @ [ob']) s)"
  using assms(1,2)
proof (induction obs arbitrary: s)
  case Nil
  have "wait_for_internet [net ob'] (post ob') s = Some (wait_done (post ob') (emit Connect s))"
    using assms(4) by (simp add: check_internet_eq)
  moreover have "run [ob'] s = (wait_done (post ob') (emit Connect s))\<lparr>pc := LAUNCHING 0\<rparr>"
    using step_wait_connected [OF Nil.prems(1) assms(3) assms(4)] by simp
  ultimately show ?case by simp
next
  case (Cons ob obs)
  have ob: "\<not> interrupt ob" "net ob = OSError" using Cons.prems(2) by simp_all
  have st: "step ob s = wait_retry (emit Connect s)"
    using step_wait_offline [OF Cons.prems(1) ob] .
  have pcs: "pc (step ob s) = AWAITING_NETWORK"
    using Cons.prems(1) by (simp add: st wait_retry_pc)
  have rest: "\<forall>ob \<in> set obs. \<not> interrupt ob \<and> net ob = OSError"
    using Cons.prems(2) by simp
  have ih: "map_option (\<lambda>s'. s'\<lparr>pc := LAUNCHING 0\<rparr>)
              (wait_for_internet (map net (obs @ [ob'])) (post ob') (step ob s)) =
            Some (run (obs @ [ob']) (step ob s))"
    using Cons.IH [OF pcs rest] .
  have "wait_for_internet (map net ((ob # obs) @ [ob'])) (post ob') s =
        wait_for_internet (map net (obs @ [ob'])) (post ob') (wait_retry (emit Connect s))"
    using ob(2) by (simp add: check_internet_eq)
  then show ?case using ih st by simp
qed


end
